theory Spec2Isabelle
  imports Main "HOL-Library.Word" "HOL-Library.Monad_Syntax"
begin

section \<open>The embedding shim \<^verbatim>\<open>julia_init.c\<close>\<close>

text \<open>
  The shim is one C file of five functions: \<^verbatim>\<open>setup_args\<close>, \<^verbatim>\<open>get_sysimage_path\<close>,
  \<^verbatim>\<open>set_depot_path\<close>, \<^verbatim>\<open>init_julia\<close> and \<^verbatim>\<open>shutdown_julia\<close>. What it computes is small;
  what it does is to pass pointers around: the path string it receives from the loader is
  handed to \<^verbatim>\<open>dirname\<close>, an automatic array is handed to \<^verbatim>\<open>putenv\<close>, the addresses of two
  parameters are handed to the option parser. The model therefore keeps an explicit memory of
  objects, and pointers into it.
\<close>

subsection \<open>Memory, pointers and the process state\<close>

type_synonym addr = nat

text \<open>
  A \<^verbatim>\<open>char *\<close> or \<^verbatim>\<open>char **\<close> value: the null pointer, a pointer to a string literal (static
  storage that lives as long as the process and is never written), or the address of an
  object in memory.
\<close>

datatype ptr = Null | Lit string | Addr addr

text \<open>\<^verbatim>\<open>int\<close> is 32 bits wide on every platform the runtime supports.\<close>

type_synonym c_int = "32 word"

text \<open>
  An object in memory: an \<^verbatim>\<open>int\<close>, a pointer, or a character array holding a
  NUL-terminated string (the characters before the NUL).
\<close>

datatype val = IntV c_int | PtrV ptr | StrV string

text \<open>
  The memory is the list of all objects ever created, indexed by address; an object whose
  lifetime has ended is \<open>None\<close>. A new object gets the next address, so it is distinct from
  every object that exists.
\<close>

type_synonym memory = "val option list"

definition lookup :: "memory \<Rightarrow> addr \<Rightarrow> val option" where
  "lookup m a = (if a < length m then m ! a else None)"

definition alloc :: "val \<Rightarrow> memory \<Rightarrow> addr \<times> memory" where
  "alloc v m = (length m, m @ [Some v])"

definition store :: "addr \<Rightarrow> val \<Rightarrow> memory \<Rightarrow> memory" where
  "store a v m = m[a := Some v]"

definition release :: "addr \<Rightarrow> memory \<Rightarrow> memory" where
  "release a m = m[a := None]"

text \<open>
  Reading the string a \<^verbatim>\<open>char *\<close> points to. \<open>None\<close> is an invalid access: a null pointer, an
  object that is not a character array, or an object whose lifetime has ended.
\<close>

definition c_str :: "memory \<Rightarrow> ptr \<Rightarrow> string option" where
  "c_str m p =
     (case p of
        Null \<Rightarrow> None
      | Lit s \<Rightarrow> Some s
      | Addr a \<Rightarrow> (case lookup m a of Some (StrV s) \<Rightarrow> Some s | _ \<Rightarrow> None))"

text \<open>The calls the shim makes into the runtime and its support libraries, in order.\<close>

datatype image_search = JL_IMAGE_CWD | JL_IMAGE_JULIA_HOME

datatype event =
    Uv_setup_args c_int ptr
  | Libsupport_init
  | Jl_parse_opts addr addr
  | Jl_error string
  | Jl_load_dynamic_library string
  | Jl_pathname_for_handle nat
  | Julia_init image_search
  | Jl_atexit_hook c_int

text \<open>
  The process state the shim acts on: the memory, the environment, the field
  \<^verbatim>\<open>jl_options.image_file\<close>, and the calls made so far. An environment entry is the pointer
  that was given to \<^verbatim>\<open>putenv\<close>, filed under the name in front of the \<^verbatim>\<open>=\<close>; the entry's
  value is read through the pointer each time it is looked up.
\<close>

record state =
  mem :: memory
  environ :: "(string \<times> ptr) list"
  image_file :: ptr
  trace :: "event list"

subsection \<open>The C library: \<^verbatim>\<open>dirname\<close>, \<^verbatim>\<open>snprintf\<close>, \<^verbatim>\<open>putenv\<close>\<close>

text \<open>
  \<^verbatim>\<open>dirname\<close> from \<^verbatim>\<open>libgen.h\<close>. POSIX lets it modify the string it is given, and the GNU C
  library does: it finds where the directory part ends, writes a NUL there and returns its
  argument; only when the string has no slash does it return a static \<^verbatim>\<open>"."\<close>. The three
  functions below follow that implementation: \<open>memrchr\<close> searches backwards for a slash
  below an index (\<^verbatim>\<open>strrchr\<close> is the search from the end), \<open>runp_loop\<close> is the loop
  \<^verbatim>\<open>for (runp = last_slash; runp != path; --runp) if (runp[-1] != '/') break;\<close>, and
  \<open>dirname_cut\<close> is the index where the NUL is written (\<open>None\<close>: no slash).
\<close>

fun memrchr :: "string \<Rightarrow> nat \<Rightarrow> nat option" where
  "memrchr path 0 = None"
| "memrchr path (Suc i) = (if path ! i = CHR ''/'' then Some i else memrchr path i)"

fun runp_loop :: "string \<Rightarrow> nat \<Rightarrow> nat" where
  "runp_loop path 0 = 0"
| "runp_loop path (Suc i) = (if path ! i \<noteq> CHR ''/'' then Suc i else runp_loop path i)"

definition dirname_cut :: "string \<Rightarrow> nat option" where
  "dirname_cut path =
     (let last_slash = memrchr path (length path);
          last_slash =
            (case last_slash of
               None \<Rightarrow> None
             | Some l \<Rightarrow>
                 if l \<noteq> 0 \<and> Suc l = length path
                 then (let runp = runp_loop path l
                       in if runp \<noteq> 0 then memrchr path runp else Some l)
                 else Some l)
      in case last_slash of
           None \<Rightarrow> None
         | Some l \<Rightarrow>
             (let runp = runp_loop path l
              in if runp = 0 then (if l = 1 then Some 2 else Some 1) else Some runp))"

text \<open>The string \<^verbatim>\<open>dirname\<close> returns, as a function of the string it is given.\<close>

definition dirname_str :: "string \<Rightarrow> string" where
  "dirname_str path = (case dirname_cut path of None \<Rightarrow> ''.'' | Some i \<Rightarrow> take i path)"

text \<open>
  \<^verbatim>\<open>dirname\<close> on the memory. Given the address of a character array it shortens the array
  in place and returns the same address. \<open>None\<close> is undefined behaviour: the argument does
  not point to a string, or the NUL would be written into a string literal.
\<close>

definition dirname :: "ptr \<Rightarrow> memory \<Rightarrow> (ptr \<times> memory) option" where
  "dirname path m =
     (case path of
        Null \<Rightarrow> Some (Lit ''.'', m)
      | Lit s \<Rightarrow> (case dirname_cut s of None \<Rightarrow> Some (Lit ''.'', m) | Some i \<Rightarrow> None)
      | Addr a \<Rightarrow>
          (case lookup m a of
             Some (StrV s) \<Rightarrow>
               (case dirname_cut s of
                  None \<Rightarrow> Some (Lit ''.'', m)
                | Some i \<Rightarrow> Some (Addr a, store a (StrV (take i s)) m))
           | _ \<Rightarrow> None))"

text \<open>
  \<^verbatim>\<open>snprintf(buf, sz, "JULIA_DEPOT_PATH=%s/", arg)\<close>: at most \<open>sz - 1\<close> characters of
  the formatted text are written to \<open>buf\<close>, then the NUL.
\<close>

definition snprintf :: "addr \<Rightarrow> nat \<Rightarrow> ptr \<Rightarrow> memory \<Rightarrow> memory option" where
  "snprintf buf sz arg m =
     (case c_str m arg of
        None \<Rightarrow> None
      | Some s \<Rightarrow>
          Some (if sz = 0 then m
                else store buf (StrV (take (sz - 1) (''JULIA_DEPOT_PATH='' @ s @ ''/''))) m))"

text \<open>
  \<^verbatim>\<open>putenv(string)\<close>: the pointer itself becomes the environment's entry for the name in
  front of the \<^verbatim>\<open>=\<close>, in the place of an entry of that name if there is one and at the end
  otherwise; the string is not copied. With no \<^verbatim>\<open>=\<close> in the string the name is removed
  from the environment. The call is taken to succeed; the shim does not look at its result.
\<close>

fun env_update :: "string \<Rightarrow> ptr \<Rightarrow> (string \<times> ptr) list \<Rightarrow> (string \<times> ptr) list" where
  "env_update k p [] = [(k, p)]"
| "env_update k p ((k', p') # es) =
     (if k' = k then (k, p) # es else (k', p') # env_update k p es)"

definition putenv :: "ptr \<Rightarrow> state \<Rightarrow> state option" where
  "putenv str st =
     (case c_str (mem st) str of
        None \<Rightarrow> None
      | Some s \<Rightarrow>
          (let name = takeWhile (\<lambda>c. c \<noteq> CHR ''='') s
           in Some (st\<lparr>environ :=
                if CHR ''='' \<in> set s then env_update name str (environ st)
                else filter (\<lambda>e. fst e \<noteq> name) (environ st)\<rparr>)))"

text \<open>
  What \<^verbatim>\<open>getenv(name)\<close> finds: no entry, an entry whose storage no longer exists, or the
  text after the \<^verbatim>\<open>=\<close> of the string the entry points to.
\<close>

datatype env_value = Unset | Dangling | Value string

definition getenv :: "state \<Rightarrow> string \<Rightarrow> env_value" where
  "getenv st name =
     (case map_of (environ st) name of
        None \<Rightarrow> Unset
      | Some p \<Rightarrow>
          (case c_str (mem st) p of
             None \<Rightarrow> Dangling
           | Some s \<Rightarrow> Value (drop (Suc (length name)) s)))"

subsection \<open>The runtime, as far as the shim calls it\<close>

text \<open>
  The runtime's functions are not part of this repository. Three of them return something
  the shim goes on to use, and are parameters of the model: the option parser, which is
  given two addresses and may write through them; the loader, which gives a handle for a
  library name (the shim asks with \<^verbatim>\<open>JL_RTLD_DEFAULT\<close> and no error on failure); and
  \<^verbatim>\<open>jl_pathname_for_handle\<close>, which gives a pointer to the path of a loaded library, or
  \<^verbatim>\<open>NULL\<close>. The others appear in the trace only.
\<close>

record runtime =
  jl_parse_opts :: "addr \<Rightarrow> addr \<Rightarrow> memory \<Rightarrow> memory"
  jl_load_dynamic_library :: "string \<Rightarrow> nat"
  jl_pathname_for_handle :: "nat \<Rightarrow> ptr"

text \<open>
  How a call ends: it returns, the process ends in \<^verbatim>\<open>exit(status)\<close>, or the behaviour is
  undefined.
\<close>

datatype 'a outcome = Returned 'a | Exited c_int state | Undefined

subsection \<open>The shim\<close>

text \<open>
  \<^verbatim>\<open>setup_args\<close>: the parameters \<^verbatim>\<open>argc\<close> and \<^verbatim>\<open>argv\<close> are objects of this call, created
  from the values passed and gone when it returns; \<^verbatim>\<open>&argc\<close> and \<^verbatim>\<open>&argv\<close> are their
  addresses.
\<close>

definition setup_args :: "runtime \<Rightarrow> c_int \<Rightarrow> ptr \<Rightarrow> state \<Rightarrow> state" where
  "setup_args rt argc argv st =
     (let (argc_addr, m) = alloc (IntV argc) (mem st);
          (argv_addr, m) = alloc (PtrV argv) m;
          tr = trace st @ [Uv_setup_args argc argv];
          tr = tr @ [Libsupport_init];
          m = jl_parse_opts rt argc_addr argv_addr m;
          tr = tr @ [Jl_parse_opts argc_addr argv_addr]
      in st\<lparr>mem := release argv_addr (release argc_addr m), trace := tr\<rparr>)"

definition get_sysimage_path :: "runtime \<Rightarrow> string option \<Rightarrow> state \<Rightarrow> (ptr \<times> state) outcome" where
  "get_sysimage_path rt libname st =
     (case libname of
        None \<Rightarrow>
          Exited 1 (st\<lparr>trace := trace st @
            [Jl_error ''Please specify `libname` when requesting the sysimage path'']\<rparr>)
      | Some name \<Rightarrow>
          (let handle = jl_load_dynamic_library rt name;
               libpath = jl_pathname_for_handle rt handle
           in Returned (libpath, st\<lparr>trace := trace st @
                [Jl_load_dynamic_library name, Jl_pathname_for_handle handle]\<rparr>)))"

text \<open>
  \<^verbatim>\<open>set_depot_path\<close>, first up to its closing brace: the result is the address of the
  automatic array \<^verbatim>\<open>buf\<close> and the state reached. \<^verbatim>\<open>PATH_MAX\<close> comes from \<^verbatim>\<open>limits.h\<close> and
  is a parameter.
\<close>

definition set_depot_path_body :: "nat \<Rightarrow> ptr \<Rightarrow> state \<Rightarrow> (addr \<times> state) option" where
  "set_depot_path_body PATH_MAX sysimage_path st =
     (let (buf, m) = alloc (StrV []) (mem st)
      in do {
           (d, m) \<leftarrow> dirname sysimage_path m;
           (d, m) \<leftarrow> dirname d m;
           m \<leftarrow> snprintf buf (PATH_MAX + 20) d m;
           st \<leftarrow> putenv (Addr buf) (st\<lparr>mem := m\<rparr>);
           st \<leftarrow> putenv (Lit ''JULIA_LOAD_PATH=@'') st;
           Some (buf, st)
         })"

text \<open>The whole call: on return the lifetime of \<^verbatim>\<open>buf\<close> ends.\<close>

definition set_depot_path :: "nat \<Rightarrow> ptr \<Rightarrow> state \<Rightarrow> state option" where
  "set_depot_path PATH_MAX sysimage_path st =
     do {
       (buf, st) \<leftarrow> set_depot_path_body PATH_MAX sysimage_path st;
       Some (st\<lparr>mem := release buf (mem st)\<rparr>)
     }"

text \<open>
  \<^verbatim>\<open>init_julia\<close>. \<^verbatim>\<open>JULIAC_PROGRAM_LIBNAME\<close> is defined by the build: a string literal, or
  nothing that names a library (\<open>None\<close> is \<^verbatim>\<open>NULL\<close>).
\<close>

definition init_julia ::
  "runtime \<Rightarrow> nat \<Rightarrow> string option \<Rightarrow> c_int \<Rightarrow> ptr \<Rightarrow> state \<Rightarrow> state outcome" where
  "init_julia rt PATH_MAX JULIAC_PROGRAM_LIBNAME argc argv st =
     (let st = setup_args rt argc argv st
      in case get_sysimage_path rt JULIAC_PROGRAM_LIBNAME st of
           Exited status st \<Rightarrow> Exited status st
         | Undefined \<Rightarrow> Undefined
         | Returned (sysimage_path, st) \<Rightarrow>
             (case set_depot_path PATH_MAX sysimage_path st of
                None \<Rightarrow> Undefined
              | Some st \<Rightarrow>
                  (let st = st\<lparr>image_file := sysimage_path\<rparr>
                   in Returned (st\<lparr>trace := trace st @ [Julia_init JL_IMAGE_JULIA_HOME]\<rparr>))))"

definition shutdown_julia :: "c_int \<Rightarrow> state \<Rightarrow> state" where
  "shutdown_julia retcode st = st\<lparr>trace := trace st @ [Jl_atexit_hook retcode]\<rparr>"

subsection \<open>Observations and an example\<close>

text \<open>
  What \<^verbatim>\<open>getenv(name)\<close> gives at the closing brace of \<^verbatim>\<open>set_depot_path\<close>, while \<^verbatim>\<open>buf\<close>
  still exists, and what it gives once the call has returned.
\<close>

definition env_in_call :: "nat \<Rightarrow> ptr \<Rightarrow> state \<Rightarrow> string \<Rightarrow> env_value option" where
  "env_in_call PATH_MAX sysimage_path st name =
     map_option (\<lambda>(buf, st'). getenv st' name) (set_depot_path_body PATH_MAX sysimage_path st)"

definition env_after_call :: "nat \<Rightarrow> ptr \<Rightarrow> state \<Rightarrow> string \<Rightarrow> env_value option" where
  "env_after_call PATH_MAX sysimage_path st name =
     map_option (\<lambda>st'. getenv st' name) (set_depot_path PATH_MAX sysimage_path st)"

text \<open>
  A process as the shim may find it on Linux, where \<^verbatim>\<open>PATH_MAX\<close> is 4096: the loader holds
  the path of the library at address 0, and the user has set \<^verbatim>\<open>JULIA_LOAD_PATH\<close>.
\<close>

definition example_state :: state where
  "example_state =
     \<lparr>mem = [Some (StrV ''/opt/app/lib/x86/image.so'')],
      environ = [(''JULIA_LOAD_PATH'', Lit ''JULIA_LOAD_PATH=/home/user/project'')],
      image_file = Null,
      trace = []\<rparr>"

definition example_runtime :: runtime where
  "example_runtime =
     \<lparr>jl_parse_opts = (\<lambda>argcp argvp m. m),
      jl_load_dynamic_library = (\<lambda>name. 1),
      jl_pathname_for_handle = (\<lambda>handle. Addr 0)\<rparr>"

text \<open>
  The state \<^verbatim>\<open>init_julia\<close> leaves that process in, with \<^verbatim>\<open>libsys.so\<close> as the library name
  and \<^verbatim>\<open>argc = 1\<close>.
\<close>

definition example_running :: state where
  "example_running =
     \<lparr>mem = [Some (StrV ''/opt/app/lib''), None, None, None],
      environ = [(''JULIA_LOAD_PATH'', Lit ''JULIA_LOAD_PATH=@''),
                 (''JULIA_DEPOT_PATH'', Addr 3)],
      image_file = Addr 0,
      trace = [Uv_setup_args 1 Null, Libsupport_init, Jl_parse_opts 1 2,
               Jl_load_dynamic_library ''libsys.so'', Jl_pathname_for_handle 1,
               Julia_init JL_IMAGE_JULIA_HOME]\<rparr>"

text \<open>
  What \<^verbatim>\<open>getenv(name)\<close> gives at the closing brace of a second call of \<^verbatim>\<open>set_depot_path\<close>
  with the same argument, after the first has returned.
\<close>

definition env_in_second_call :: "nat \<Rightarrow> ptr \<Rightarrow> state \<Rightarrow> string \<Rightarrow> env_value option" where
  "env_in_second_call PATH_MAX sysimage_path st name =
     do {
       st \<leftarrow> set_depot_path PATH_MAX sysimage_path st;
       env_in_call PATH_MAX sysimage_path st name
     }"

text \<open>A process whose library sits under a directory of 5001 bytes, and an empty environment.\<close>

definition long_path_state :: state where
  "long_path_state =
     \<lparr>mem = [Some (StrV (CHR ''/'' # replicate 5000 CHR ''a'' @ ''/lib/image.so''))],
      environ = [],
      image_file = Null,
      trace = []\<rparr>"

text \<open>
  The argument list of a process, as the addresses it occupies: the vector
  \<^verbatim>\<open>argv[0]\<close> to \<^verbatim>\<open>argv[argc]\<close> and the strings its elements point to.
\<close>

definition argument_list :: "memory \<Rightarrow> c_int \<Rightarrow> ptr \<Rightarrow> addr list" where
  "argument_list m argc argv =
     (case argv of
        Addr v \<Rightarrow>
          (let vector = [v ..< v + nat (sint argc) + 1]
           in vector @
              concat (map (\<lambda>c. case lookup m c of Some (PtrV (Addr s)) \<Rightarrow> [s] | _ \<Rightarrow> []) vector))
      | _ \<Rightarrow> [])"

text \<open>
  An option parser that rewrites the argument list and consumes from it: it exchanges
  \<^verbatim>\<open>argv[0]\<close> and \<^verbatim>\<open>argv[1]\<close> in the vector itself, then decrements \<^verbatim>\<open>*argcp\<close> and
  advances \<^verbatim>\<open>*argvp\<close> by one element. The process it runs in has \<^verbatim>\<open>main\<close>'s variables
  \<^verbatim>\<open>argc\<close> and \<^verbatim>\<open>argv\<close> at addresses 1 and 2, the argument vector at 3 to 5 and its
  strings at 6 and 7.
\<close>

definition permuting_parser :: "addr \<Rightarrow> addr \<Rightarrow> memory \<Rightarrow> memory" where
  "permuting_parser argcp argvp m =
     (case (lookup m argcp, lookup m argvp) of
        (Some (IntV n), Some (PtrV (Addr v))) \<Rightarrow>
          (case (lookup m v, lookup m (Suc v)) of
             (Some x, Some y) \<Rightarrow>
               store argvp (PtrV (Addr (Suc v)))
                 (store argcp (IntV (n - 1)) (store (Suc v) x (store v y m)))
           | _ \<Rightarrow> m)
      | _ \<Rightarrow> m)"

definition args_runtime :: runtime where
  "args_runtime = example_runtime\<lparr>jl_parse_opts := permuting_parser\<rparr>"

definition args_state :: state where
  "args_state =
     \<lparr>mem = [Some (StrV ''/opt/app/lib/x86/image.so''),
             Some (IntV 2), Some (PtrV (Addr 3)),
             Some (PtrV (Addr 6)), Some (PtrV (Addr 7)), Some (PtrV Null),
             Some (StrV ''app''), Some (StrV ''--quiet'')],
      environ = [],
      image_file = Null,
      trace = []\<rparr>"

subsection \<open>The depot, in the words of the specification\<close>

text \<open>
  The specification describes the depot without the C library: take the directory
  containing the path, then the directory containing that directory. On the string alone,
  the directory containing a path is what is left when the separators at its end, the name
  in front of them and the separators in front of the name are taken away. Where nothing
  is left, the path named an entry of the root (the name had only separators in front of
  it), was the root itself, or was a bare name, whose directory is \<^verbatim>\<open>.\<close>. POSIX leaves a
  path that begins with exactly two separators to the implementation, so a root of two
  separators stays as it is. These definitions are compared with \<^verbatim>\<open>dirname\<close>; the model of
  the shim does not use them.
\<close>

definition strip_slashes :: "string \<Rightarrow> string" where
  "strip_slashes xs = rev (dropWhile (\<lambda>c. c = CHR ''/'') (rev xs))"

definition strip_name :: "string \<Rightarrow> string" where
  "strip_name xs = rev (dropWhile (\<lambda>c. c \<noteq> CHR ''/'') (rev xs))"






section \<open>Properties\<close>

subsection \<open>Memory and environment\<close>

lemma lookup_append_old: "a < length m \<Longrightarrow> lookup (m @ [x]) a = lookup m a"
  by (simp add: lookup_def nth_append)

lemma lookup_append_new: "lookup (m @ [x]) (length m) = x"
  by (simp add: lookup_def)

lemma lookup_store: "lookup (store a v m) b = (if b = a \<and> a < length m then Some v else lookup m b)"
  by (simp add: lookup_def store_def)

lemma lookup_release: "lookup (release a m) b = (if b = a then None else lookup m b)"
  by (simp add: lookup_def release_def)

lemma lookup_Some_less: "lookup m a = Some v \<Longrightarrow> a < length m"
  by (simp add: lookup_def split: if_splits)

lemma length_store [simp]: "length (store a v m) = length m"
  by (simp add: store_def)

lemma length_release [simp]: "length (release a m) = length m"
  by (simp add: release_def)

lemma c_str_append: "c_str m p = Some s \<Longrightarrow> c_str (m @ [x]) p = Some s"
proof (cases p)
  case (Addr a)
  assume "c_str m p = Some s"
  with Addr have l: "lookup m a = Some (StrV s)"
    by (simp add: c_str_def split: option.splits val.splits)
  then have "lookup (m @ [x]) a = Some (StrV s)"
    by (simp add: lookup_append_old lookup_Some_less)
  with Addr show ?thesis by (simp add: c_str_def)
qed (simp_all add: c_str_def)

lemma c_str_Addr: "c_str m (Addr a) = Some s \<longleftrightarrow> lookup m a = Some (StrV s)"
  by (auto simp: c_str_def split: option.splits val.splits)

lemma map_of_env_update: "map_of (env_update k p es) = (map_of es)(k \<mapsto> p)"
  by (induction es) (auto simp: fun_eq_iff)

lemma keys_env_update:
  "map fst (env_update k p es) = (if k \<in> fst ` set es then map fst es else map fst es @ [k])"
proof (induction es)
  case Nil
  show ?case by simp
next
  case (Cons e es)
  obtain k' p' where e: "e = (k', p')" by (cases e)
  show ?case using Cons by (cases "k' = k") (auto simp: e image_iff)
qed

lemma dirname_result:
  assumes "c_str m p = Some s" and "dirname p m = Some (q, m')"
  shows "c_str m' q = Some (dirname_str s)"
    and "length m' = length m"
    and "Addr b \<noteq> p \<Longrightarrow> lookup m' b = lookup m b"
  using assms
  by (auto simp: dirname_def dirname_str_def c_str_def lookup_store
           dest: lookup_Some_less split: ptr.splits option.splits val.splits)

lemma dirname_defined:
  assumes "lookup m a = Some (StrV s)"
  shows "\<exists>q m'. dirname (Addr a) m = Some (q, m') \<and> (q = Addr a \<or> q = Lit ''.'')"
  using assms by (auto simp: dirname_def split: option.splits)

lemma dirname_cut_dot: "dirname_cut ''.'' = None"
  by (simp add: dirname_cut_def)

lemma dirname_again_defined:
  assumes "c_str m q = Some s" and "q = Addr a \<or> q = Lit ''.''"
  shows "\<exists>q' m'. dirname q m = Some (q', m')"
  using assms by (auto simp: dirname_def c_str_def dirname_cut_dot split: option.splits val.splits)

lemma takeWhile_take_name:
  assumes "\<forall>c \<in> set k. c \<noteq> CHR ''=''" and "length k < n"
  shows "takeWhile (\<lambda>c. c \<noteq> CHR ''='') (take n (k @ CHR ''='' # r)) = k"
    and "CHR ''='' \<in> set (take n (k @ CHR ''='' # r))"
proof -
  obtain n' where n: "n = length k + Suc n'"
    using assms(2) by (metis less_imp_Suc_add add_Suc_right)
  show "takeWhile (\<lambda>c. c \<noteq> CHR ''='') (take n (k @ CHR ''='' # r)) = k"
    using assms(1) by (simp add: n takeWhile_append2 del: take_Suc_Cons) (simp add: takeWhile_tail)
  show "CHR ''='' \<in> set (take n (k @ CHR ''='' # r))"
    by (simp add: n)
qed


lemma set_depot_path_body_steps:
  assumes "set_depot_path_body PATH_MAX p st = Some (buf, st')"
  obtains d1 m1 d2 m2 m3 st1 where
    "buf = length (mem st)"
    "dirname p (mem st @ [Some (StrV [])]) = Some (d1, m1)"
    "dirname d1 m1 = Some (d2, m2)"
    "snprintf buf (PATH_MAX + 20) d2 m2 = Some m3"
    "putenv (Addr buf) (st\<lparr>mem := m3\<rparr>) = Some st1"
    "putenv (Lit ''JULIA_LOAD_PATH=@'') st1 = Some st'"
  using assms
  by (auto simp: set_depot_path_body_def alloc_def bind_eq_Some_conv)

lemma dirname_length: "dirname p m = Some (q, m') \<Longrightarrow> length m' = length m"
  by (auto simp: dirname_def split: ptr.splits option.splits val.splits)

lemma set_depot_path_body_state:
  assumes "set_depot_path_body PATH_MAX p st = Some (buf, st')"
  obtains d1 m1 d2 m2 s where
    "buf = length (mem st)"
    "dirname p (mem st @ [Some (StrV [])]) = Some (d1, m1)"
    "dirname d1 m1 = Some (d2, m2)"
    "c_str m2 d2 = Some s"
    "st' = st\<lparr>mem := store buf (StrV (take (PATH_MAX + 19) (''JULIA_DEPOT_PATH='' @ s @ ''/''))) m2,
              environ := env_update ''JULIA_LOAD_PATH'' (Lit ''JULIA_LOAD_PATH=@'')
                (env_update ''JULIA_DEPOT_PATH'' (Addr buf) (environ st))\<rparr>"
proof -
  let ?m0 = "mem st @ [Some (StrV [])]"
  from assms obtain d1 m1 d2 m2 m3 st1 where
    buf: "buf = length (mem st)" and
    d1: "dirname p ?m0 = Some (d1, m1)" and
    d2: "dirname d1 m1 = Some (d2, m2)" and
    pr: "snprintf buf (PATH_MAX + 20) d2 m2 = Some m3" and
    e1: "putenv (Addr buf) (st\<lparr>mem := m3\<rparr>) = Some st1" and
    e2: "putenv (Lit ''JULIA_LOAD_PATH=@'') st1 = Some st'"
    by (rule set_depot_path_body_steps)
  from pr obtain s where s: "c_str m2 d2 = Some s"
    by (auto simp: snprintf_def split: option.splits)
  let ?fmt = "take (PATH_MAX + 19) (''JULIA_DEPOT_PATH='' @ s @ ''/'')"
  have l: "length m2 = Suc (length (mem st))"
    using dirname_length[OF d1] dirname_length[OF d2] by simp
  have sz: "PATH_MAX + 20 - 1 = PATH_MAX + 19" by simp
  have "snprintf buf (PATH_MAX + 20) d2 m2 = Some (store buf (StrV ?fmt) m2)"
    unfolding snprintf_def s sz by simp
  with pr have m3: "m3 = store buf (StrV ?fmt) m2" by simp
  have b3: "lookup m3 buf = Some (StrV ?fmt)"
    by (simp add: m3 lookup_store l buf)
  have fmt: "?fmt = take (PATH_MAX + 19) (''JULIA_DEPOT_PATH'' @ CHR ''='' # (s @ ''/''))"
    by simp
  have name: "takeWhile (\<lambda>c. c \<noteq> CHR ''='') ?fmt = ''JULIA_DEPOT_PATH''"
    unfolding fmt by (rule takeWhile_take_name(1)) simp_all
  have eq: "CHR ''='' \<in> set ?fmt"
    unfolding fmt by (rule takeWhile_take_name(2)) simp_all
  have st1: "st1 = st\<lparr>mem := m3,
      environ := env_update ''JULIA_DEPOT_PATH'' (Addr buf) (environ st)\<rparr>"
    using e1 b3 name eq by (simp add: putenv_def c_str_def del: take_append)
  have st': "st' = st1\<lparr>environ :=
      env_update ''JULIA_LOAD_PATH'' (Lit ''JULIA_LOAD_PATH=@'') (environ st1)\<rparr>"
    using e2 by (simp add: putenv_def c_str_def)
  have "st' = st\<lparr>mem := store buf (StrV ?fmt) m2,
              environ := env_update ''JULIA_LOAD_PATH'' (Lit ''JULIA_LOAD_PATH=@'')
                (env_update ''JULIA_DEPOT_PATH'' (Addr buf) (environ st))\<rparr>"
    by (simp add: st' st1 m3)
  with buf d1 d2 s show thesis by (rule that)
qed

lemma set_depot_path_body_env:
  assumes "set_depot_path_body PATH_MAX p st = Some (buf, st')"
  shows "buf = length (mem st)"
    and "environ st' = env_update ''JULIA_LOAD_PATH'' (Lit ''JULIA_LOAD_PATH=@'')
           (env_update ''JULIA_DEPOT_PATH'' (Addr buf) (environ st))"
    and "image_file st' = image_file st"
    and "trace st' = trace st"
    and "length (mem st') = Suc (length (mem st))"
proof -
  from assms obtain d1 m1 d2 m2 s where
    buf: "buf = length (mem st)" and
    d1: "dirname p (mem st @ [Some (StrV [])]) = Some (d1, m1)" and
    d2: "dirname d1 m1 = Some (d2, m2)" and
    st': "st' = st\<lparr>mem := store buf (StrV (take (PATH_MAX + 19) (''JULIA_DEPOT_PATH='' @ s @ ''/''))) m2,
              environ := env_update ''JULIA_LOAD_PATH'' (Lit ''JULIA_LOAD_PATH=@'')
                (env_update ''JULIA_DEPOT_PATH'' (Addr buf) (environ st))\<rparr>"
    by (rule set_depot_path_body_state)
  have l: "length m2 = Suc (length (mem st))"
    using dirname_length[OF d1] dirname_length[OF d2] by simp
  show "buf = length (mem st)" by (rule buf)
  show "environ st' = env_update ''JULIA_LOAD_PATH'' (Lit ''JULIA_LOAD_PATH=@'')
           (env_update ''JULIA_DEPOT_PATH'' (Addr buf) (environ st))"
    by (simp add: st')
  show "image_file st' = image_file st" by (simp add: st')
  show "trace st' = trace st" by (simp add: st')
  show "length (mem st') = Suc (length (mem st))" by (simp add: st' l)
qed

lemma set_depot_path_body_buf:
  assumes p: "c_str (mem st) p = Some path"
      and run: "set_depot_path_body PATH_MAX p st = Some (buf, st')"
  shows "lookup (mem st') buf = Some (StrV (take (PATH_MAX + 19)
           (''JULIA_DEPOT_PATH='' @ dirname_str (dirname_str path) @ ''/'')))"
proof -
  from run obtain d1 m1 d2 m2 s where
    buf: "buf = length (mem st)" and
    d1: "dirname p (mem st @ [Some (StrV [])]) = Some (d1, m1)" and
    d2: "dirname d1 m1 = Some (d2, m2)" and
    s: "c_str m2 d2 = Some s" and
    st': "st' = st\<lparr>mem := store buf (StrV (take (PATH_MAX + 19) (''JULIA_DEPOT_PATH='' @ s @ ''/''))) m2,
              environ := env_update ''JULIA_LOAD_PATH'' (Lit ''JULIA_LOAD_PATH=@'')
                (env_update ''JULIA_DEPOT_PATH'' (Addr buf) (environ st))\<rparr>"
    by (rule set_depot_path_body_state)
  have p0: "c_str (mem st @ [Some (StrV [])]) p = Some path" using p by (rule c_str_append)
  have s1: "c_str m1 d1 = Some (dirname_str path)"
    using dirname_result(1)[OF p0 d1] .
  have "c_str m2 d2 = Some (dirname_str (dirname_str path))"
    using dirname_result(1)[OF s1 d2] .
  with s have s': "s = dirname_str (dirname_str path)" by simp
  have l: "length m2 = Suc (length (mem st))"
    using dirname_length[OF d1] dirname_length[OF d2] by simp
  show ?thesis
    unfolding s'[symmetric] by (simp add: st' lookup_store l buf del: take_append)
qed

lemma putenv_defined: "c_str (mem st) p = Some s \<Longrightarrow> \<exists>st'. putenv p st = Some st'"
  by (simp add: putenv_def Let_def)

lemma set_depot_path_body_defined:
  assumes "lookup (mem st) a = Some (StrV path)"
  shows "\<exists>buf st'. set_depot_path_body PATH_MAX (Addr a) st = Some (buf, st')"
proof -
  let ?m0 = "mem st @ [Some (StrV [])]"
  let ?buf = "length (mem st)"
  have a: "a < length (mem st)" using assms by (rule lookup_Some_less)
  have p0: "c_str ?m0 (Addr a) = Some path"
    using assms by (simp add: c_str_Addr lookup_append_old a)
  then have "lookup ?m0 a = Some (StrV path)" by (simp add: c_str_Addr)
  from dirname_defined[OF this] obtain d1 m1 where
    d1: "dirname (Addr a) ?m0 = Some (d1, m1)" and q: "d1 = Addr a \<or> d1 = Lit ''.''"
    by blast
  have s1: "c_str m1 d1 = Some (dirname_str path)" and l1: "length m1 = length ?m0"
    using dirname_result(1,2)[OF p0 d1] by simp_all
  from dirname_again_defined[OF s1 q] obtain d2 m2 where d2: "dirname d1 m1 = Some (d2, m2)"
    by blast
  have s2: "c_str m2 d2 = Some (dirname_str (dirname_str path))" and l2: "length m2 = length m1"
    using dirname_result(1,2)[OF s1 d2] by simp_all
  define m3 where "m3 = store ?buf (StrV (take (PATH_MAX + 20 - 1)
               (''JULIA_DEPOT_PATH='' @ dirname_str (dirname_str path) @ ''/''))) m2"
  have pr: "snprintf ?buf (PATH_MAX + 20) d2 m2 = Some m3"
    unfolding snprintf_def s2 m3_def by simp
  have "\<exists>s. c_str (mem (st\<lparr>mem := m3\<rparr>)) (Addr ?buf) = Some s"
    by (simp add: m3_def c_str_def lookup_store l2 l1)
  then obtain st1 where e1: "putenv (Addr ?buf) (st\<lparr>mem := m3\<rparr>) = Some st1"
    using putenv_defined by blast
  have "c_str (mem st1) (Lit ''JULIA_LOAD_PATH=@'') = Some ''JULIA_LOAD_PATH=@''"
    by (simp add: c_str_def)
  then obtain st2 where e2: "putenv (Lit ''JULIA_LOAD_PATH=@'') st1 = Some st2"
    using putenv_defined by blast
  have "set_depot_path_body PATH_MAX (Addr a) st = Some (?buf, st2)"
    unfolding set_depot_path_body_def alloc_def by (simp add: d1 d2 pr e1 e2)
  then show ?thesis by blast
qed

lemma memrchr_segment:
  assumes "CHR ''/'' \<notin> set g"
  shows "memrchr (d @ CHR ''/'' # g @ r) (Suc (length d + length g)) = Some (length d)"
  using assms
proof (induction g arbitrary: r rule: rev_induct)
  case Nil
  show ?case by simp
next
  case (snoc c g)
  have "(d @ CHR ''/'' # (g @ [c]) @ r) ! Suc (length d + length g) = c"
    by (simp add: nth_append)
  moreover have "c \<noteq> CHR ''/''" and "CHR ''/'' \<notin> set g"
    using snoc.prems by auto
  ultimately show ?case
    using snoc.IH[of "c # r"] by simp
qed

lemma strrchr_segment:
  assumes "CHR ''/'' \<notin> set f"
  shows "memrchr (d @ CHR ''/'' # f) (length (d @ CHR ''/'' # f)) = Some (length d)"
  using memrchr_segment[OF assms, of d "[]"] by simp

lemma runp_loop_stop:
  assumes "d \<noteq> []" and "last d \<noteq> CHR ''/''"
  shows "runp_loop (d @ r) (length d) = length d"
proof -
  obtain n where n: "length d = Suc n" using assms(1) by (cases d) auto
  then have "(d @ r) ! n = last d"
    using assms(1) by (simp add: nth_append last_conv_nth)
  then show ?thesis using assms(2) by (simp add: n)
qed

lemma dirname_cut_segment:
  assumes "f \<noteq> []" and "CHR ''/'' \<notin> set f" and "d \<noteq> []" and "last d \<noteq> CHR ''/''"
  shows "dirname_cut (d @ CHR ''/'' # f) = Some (length d)"
proof -
  let ?p = "d @ CHR ''/'' # f"
  have 1: "memrchr ?p (length ?p) = Some (length d)"
    using assms(2) by (rule strrchr_segment)
  have 2: "Suc (length d) \<noteq> length ?p"
    using assms(1) by simp
  have 3: "runp_loop ?p (length d) = length d"
    using assms(3,4) by (rule runp_loop_stop)
  show ?thesis
    unfolding dirname_cut_def 1 Let_def using 2 3 assms(3) by simp
qed

lemma dirname_str_segment:
  assumes "f \<noteq> []" and "CHR ''/'' \<notin> set f" and "d \<noteq> []" and "last d \<noteq> CHR ''/''"
  shows "dirname_str (d @ CHR ''/'' # f) = d"
  by (simp add: dirname_str_def dirname_cut_segment[OF assms])

lemma dirname_cut_root_segment:
  assumes "f \<noteq> []" and "CHR ''/'' \<notin> set f"
  shows "dirname_cut (CHR ''/'' # f) = Some 1"
proof -
  have 1: "memrchr (CHR ''/'' # f) (length (CHR ''/'' # f)) = Some 0"
    using strrchr_segment[OF assms(2), of "[]"] by simp
  show ?thesis
    unfolding dirname_cut_def 1 Let_def by simp
qed

lemma dirname_str_root_segment:
  assumes "f \<noteq> []" and "CHR ''/'' \<notin> set f"
  shows "dirname_str (CHR ''/'' # f) = ''/''"
  by (simp add: dirname_str_def dirname_cut_root_segment[OF assms])

lemma getenv_depot_in_call:
  assumes "c_str (mem st) p = Some path"
      and "set_depot_path_body PATH_MAX p st = Some (buf, st')"
  shows "getenv st' ''JULIA_DEPOT_PATH'' =
           Value (take (PATH_MAX + 2) (dirname_str (dirname_str path) @ ''/''))"
proof -
  let ?fmt = "take (PATH_MAX + 19)
      (''JULIA_DEPOT_PATH='' @ dirname_str (dirname_str path) @ ''/'')"
  have mo: "map_of (environ st') ''JULIA_DEPOT_PATH'' = Some (Addr buf)"
    by (simp add: set_depot_path_body_env(2)[OF assms(2)] map_of_env_update)
  have cs: "c_str (mem st') (Addr buf) = Some ?fmt"
    using set_depot_path_body_buf[OF assms] by (simp add: c_str_Addr)
  have len: "Suc (length ''JULIA_DEPOT_PATH'') = 17"
    by simp
  have dr: "drop 17 ?fmt = take (PATH_MAX + 2) (dirname_str (dirname_str path) @ ''/'')"
    by (simp add: drop_take)
  have "getenv st' ''JULIA_DEPOT_PATH'' = Value (drop (Suc (length ''JULIA_DEPOT_PATH'')) ?fmt)"
    by (simp only: getenv_def mo cs option.case)
  then show ?thesis
    by (simp only: len dr)
qed

lemma getenv_load_in_call:
  assumes "set_depot_path_body PATH_MAX p st = Some (buf, st')"
  shows "getenv st' ''JULIA_LOAD_PATH'' = Value ''@''"
  by (simp add: getenv_def set_depot_path_body_env(2)[OF assms] map_of_env_update c_str_def)

lemma set_depot_path_returned:
  assumes "set_depot_path PATH_MAX p st = Some st'"
  obtains buf st1 where
    "set_depot_path_body PATH_MAX p st = Some (buf, st1)"
    "st' = st1\<lparr>mem := release buf (mem st1)\<rparr>"
  using assms by (auto simp: set_depot_path_def bind_eq_Some_conv)

lemma getenv_load_after:
  assumes "set_depot_path PATH_MAX p st = Some st'"
  shows "getenv st' ''JULIA_LOAD_PATH'' = Value ''@''"
proof -
  from assms obtain buf st1 where
    run: "set_depot_path_body PATH_MAX p st = Some (buf, st1)" and
    st': "st' = st1\<lparr>mem := release buf (mem st1)\<rparr>"
    by (rule set_depot_path_returned)
  show ?thesis
    by (simp add: getenv_def st' set_depot_path_body_env(2)[OF run] map_of_env_update c_str_def)
qed

lemma getenv_depot_after:
  assumes "set_depot_path PATH_MAX p st = Some st'"
  shows "getenv st' ''JULIA_DEPOT_PATH'' = Dangling"
proof -
  from assms obtain buf st1 where
    run: "set_depot_path_body PATH_MAX p st = Some (buf, st1)" and
    st': "st' = st1\<lparr>mem := release buf (mem st1)\<rparr>"
    by (rule set_depot_path_returned)
  have "map_of (environ st') ''JULIA_DEPOT_PATH'' = Some (Addr buf)"
    by (simp add: st' set_depot_path_body_env(2)[OF run] map_of_env_update)
  moreover have "c_str (mem st') (Addr buf) = None"
    by (simp add: st' c_str_def lookup_release)
  ultimately show ?thesis
    by (simp add: getenv_def)
qed

lemma dirname_str_two_segments:
  assumes "a \<noteq> []" and "f \<noteq> []" and "CHR ''/'' \<notin> set a" and "CHR ''/'' \<notin> set f"
      and "d = [] \<or> last d \<noteq> CHR ''/''"
  shows "dirname_str (dirname_str (d @ ''/'' @ a @ ''/'' @ f)) = (if d = [] then ''/'' else d)"
proof -
  have l: "last (d @ CHR ''/'' # a) \<noteq> CHR ''/''"
    using assms(1,3) by (auto simp: last_in_set dest: last_in_set)
  have "dirname_str ((d @ CHR ''/'' # a) @ CHR ''/'' # f) = d @ CHR ''/'' # a"
    using assms(2,4) _ l by (rule dirname_str_segment) simp
  then have 1: "dirname_str (d @ ''/'' @ a @ ''/'' @ f) = d @ CHR ''/'' # a"
    by simp
  show ?thesis
  proof (cases "d = []")
    case True
    then show ?thesis
      using 1 dirname_str_root_segment[OF assms(1,3)] by simp
  next
    case False
    with assms(5) have "last d \<noteq> CHR ''/''" by simp
    with False show ?thesis
      using 1 dirname_str_segment[OF assms(1,3) False] by simp
  qed
qed

lemma key_set_env_update: "fst ` set (env_update k p es) = insert k (fst ` set es)"
proof -
  have "set (map fst (env_update k p es)) = insert k (set (map fst es))"
    unfolding keys_env_update by auto
  then show ?thesis by simp
qed

lemma keys_after_call:
  assumes "set_depot_path_body PATH_MAX p st = Some (buf, st')"
  shows "set (map fst (environ st')) =
           set (map fst (environ st)) \<union> {''JULIA_DEPOT_PATH'', ''JULIA_LOAD_PATH''}"
    and "name \<noteq> ''JULIA_DEPOT_PATH'' \<Longrightarrow> name \<noteq> ''JULIA_LOAD_PATH'' \<Longrightarrow>
           map_of (environ st') name = map_of (environ st) name"
proof -
  note e = set_depot_path_body_env(2)[OF assms]
  have "fst ` set (environ st') =
      insert ''JULIA_LOAD_PATH'' (insert ''JULIA_DEPOT_PATH'' (fst ` set (environ st)))"
    unfolding e key_set_env_update ..
  then show "set (map fst (environ st')) =
           set (map fst (environ st)) \<union> {''JULIA_DEPOT_PATH'', ''JULIA_LOAD_PATH''}"
    by auto
  show "map_of (environ st') name = map_of (environ st) name"
    if "name \<noteq> ''JULIA_DEPOT_PATH''" and "name \<noteq> ''JULIA_LOAD_PATH''"
    using that by (simp add: e map_of_env_update)
qed

subsection \<open>\<^verbatim>\<open>dirname\<close> and the specification's containing directory\<close>



lemma strip_slashes_Nil [simp]: "strip_slashes [] = []"
  by (simp add: strip_slashes_def)

lemma strip_name_Nil [simp]: "strip_name [] = []"
  by (simp add: strip_name_def)






























subsection \<open>When \<^verbatim>\<open>init_julia\<close> returns\<close>

lemma set_depot_path_defined:
  assumes "lookup (mem st) a = Some (StrV path)"
  shows "\<exists>st'. set_depot_path PATH_MAX (Addr a) st = Some st'"
  using set_depot_path_body_defined[OF assms, of PATH_MAX]
  by (auto simp: set_depot_path_def)

lemma init_julia_returns:
  assumes "jl_pathname_for_handle rt (jl_load_dynamic_library rt name) = Addr a"
      and "lookup (mem (setup_args rt argc argv st)) a = Some (StrV path)"
  shows "\<exists>st'. init_julia rt PATH_MAX (Some name) argc argv st = Returned st'"
proof -
  let ?st = "(setup_args rt argc argv st)\<lparr>trace := trace (setup_args rt argc argv st) @
    [Jl_load_dynamic_library name, Jl_pathname_for_handle (jl_load_dynamic_library rt name)]\<rparr>"
  have "lookup (mem ?st) a = Some (StrV path)"
    using assms(2) by simp
  from set_depot_path_defined[OF this] obtain st' where
    "set_depot_path PATH_MAX (Addr a) ?st = Some st'" by blast
  then show ?thesis
    by (simp add: init_julia_def get_sysimage_path_def Let_def assms(1))
qed

subsection \<open>The example, evaluated\<close>

lemma example_body:
  "set_depot_path_body 4096 (Addr 0) example_state =
     Some (1, \<lparr>mem = [Some (StrV ''/opt/app/lib''), Some (StrV ''JULIA_DEPOT_PATH=/opt/app/lib/'')],
               environ = [(''JULIA_LOAD_PATH'', Lit ''JULIA_LOAD_PATH=@''),
                          (''JULIA_DEPOT_PATH'', Addr 1)],
               image_file = Null,
               trace = []\<rparr>)"
  unfolding example_state_def by code_simp

lemma example_call:
  "set_depot_path 4096 (Addr 0) example_state =
     Some \<lparr>mem = [Some (StrV ''/opt/app/lib''), None],
           environ = [(''JULIA_LOAD_PATH'', Lit ''JULIA_LOAD_PATH=@''),
                      (''JULIA_DEPOT_PATH'', Addr 1)],
           image_file = Null,
           trace = []\<rparr>"
  unfolding example_state_def by code_simp

lemma example_init:
  "init_julia example_runtime 4096 (Some ''libsys.so'') 1 Null example_state =
     Returned example_running"
  by code_simp

lemma init_julia_named_never_exits:
  "init_julia rt PATH_MAX (Some name) argc argv st \<noteq> Exited status st'"
  by (simp add: init_julia_def get_sysimage_path_def Let_def split: option.splits)

subsection \<open>The parser of the example\<close>

lemma args_list: "argument_list (mem args_state) 2 (Addr 3) = [3, 4, 5, 6, 7]"
  by code_simp

lemma args_parsed:
  "jl_parse_opts args_runtime 8 9 (mem args_state @ [Some (IntV 2), Some (PtrV (Addr 3))]) =
     [Some (StrV ''/opt/app/lib/x86/image.so''),
      Some (IntV 2), Some (PtrV (Addr 3)),
      Some (PtrV (Addr 7)), Some (PtrV (Addr 6)), Some (PtrV Null),
      Some (StrV ''app''), Some (StrV ''--quiet''),
      Some (IntV 1), Some (PtrV (Addr 4))]"
  by code_simp

lemma args_call_footprint:
  "\<forall>b. b < length (mem args_state) \<and> b \<notin> set (argument_list (mem args_state) 2 (Addr 3)) \<longrightarrow>
     lookup (jl_parse_opts args_runtime (length (mem args_state)) (Suc (length (mem args_state)))
               (mem args_state @ [Some (IntV 2), Some (PtrV (Addr 3))])) b =
     lookup (mem args_state) b"
proof (intro allI impI)
  fix b
  assume b: "b < length (mem args_state) \<and> b \<notin> set (argument_list (mem args_state) 2 (Addr 3))"
  have len: "length (mem args_state) = 8" by (simp add: args_state_def)
  from b have "b = 0 \<or> b = 1 \<or> b = 2"
    unfolding args_list len by auto
  then show "lookup (jl_parse_opts args_runtime (length (mem args_state))
               (Suc (length (mem args_state)))
               (mem args_state @ [Some (IntV 2), Some (PtrV (Addr 3))])) b =
     lookup (mem args_state) b"
    unfolding len using args_parsed by (auto simp: lookup_def args_state_def)
qed

section \<open>The claims\<close>

text \<open>
  C1. The claim: after \<^verbatim>\<open>init_julia\<close> has resolved the path, \<^verbatim>\<open>jl_options.image_file\<close> holds
  exactly the path \<^verbatim>\<open>get_sysimage_path\<close> returned, and that string is never modified;
  setting the depot variable leaves it unchanged. The code: \<^verbatim>\<open>image_file\<close> is the pointer
  that was returned, but \<^verbatim>\<open>set_depot_path\<close> has passed that pointer, its \<^verbatim>\<open>const\<close> cast
  away, through \<^verbatim>\<open>dirname\<close> twice, and the string it points to is cut down to the depot
  directory. In the example the loader reports \<^verbatim>\<open>/opt/app/lib/x86/image.so\<close>; when
  \<^verbatim>\<open>init_julia\<close> returns, \<^verbatim>\<open>image_file\<close> points to the string \<^verbatim>\<open>/opt/app/lib\<close>.
\<close>

theorem image_path_overwritten:
  "jl_pathname_for_handle example_runtime (jl_load_dynamic_library example_runtime ''libsys.so'') =
     Addr 0 \<and>
   c_str (mem example_state) (Addr 0) = Some ''/opt/app/lib/x86/image.so'' \<and>
   init_julia example_runtime 4096 (Some ''libsys.so'') 1 Null example_state =
     Returned example_running \<and>
   image_file example_running = Addr 0 \<and>
   c_str (mem example_running) (image_file example_running) = Some ''/opt/app/lib''"
  by code_simp

text \<open>
  C2 (as amended). For the path \<^verbatim>\<open>/opt/app/lib/x86/image.so\<close> the two calls of \<^verbatim>\<open>dirname\<close> give
  \<^verbatim>\<open>/opt/app/lib\<close>, two levels up, and the value of \<^verbatim>\<open>JULIA_DEPOT_PATH\<close> composed in
  \<^verbatim>\<open>set_depot_path\<close> is exactly \<^verbatim>\<open>/opt/app/lib/\<close>, whatever else the process state holds
  (POSIX requires \<^verbatim>\<open>PATH_MAX\<close> to be at least 256).
\<close>

theorem depot_of_example_path:
  assumes "lookup (mem st) a = Some (StrV ''/opt/app/lib/x86/image.so'')"
      and "256 \<le> PATH_MAX"
  shows "dirname_str (dirname_str ''/opt/app/lib/x86/image.so'') = ''/opt/app/lib'' \<and>
         env_in_call PATH_MAX (Addr a) st ''JULIA_DEPOT_PATH'' = Some (Value ''/opt/app/lib/'')"
proof -
  have d: "dirname_str (dirname_str ''/opt/app/lib/x86/image.so'') = ''/opt/app/lib''"
    by code_simp
  obtain buf st' where
    run: "set_depot_path_body PATH_MAX (Addr a) st = Some (buf, st')"
    using set_depot_path_body_defined[OF assms(1)] by blast
  have p: "c_str (mem st) (Addr a) = Some ''/opt/app/lib/x86/image.so''"
    using assms(1) by (simp add: c_str_Addr)
  have "getenv st' ''JULIA_DEPOT_PATH'' = Value (take (PATH_MAX + 2) (''/opt/app/lib'' @ ''/''))"
    using getenv_depot_in_call[OF p run] by (simp only: d)
  also have "take (PATH_MAX + 2) (''/opt/app/lib'' @ ''/'') = ''/opt/app/lib/''"
    using assms(2) by simp
  finally show ?thesis
    using d by (simp add: env_in_call_def run)
qed

text \<open>The example process is an instance.\<close>

theorem depot_of_example_path_witness:
  "lookup (mem example_state) 0 = Some (StrV ''/opt/app/lib/x86/image.so'') \<and>
   (256::nat) \<le> 4096 \<and>
   dirname_str (dirname_str ''/opt/app/lib/x86/image.so'') = ''/opt/app/lib'' \<and>
   env_in_call 4096 (Addr 0) example_state ''JULIA_DEPOT_PATH'' = Some (Value ''/opt/app/lib/'')"
proof -
  have h1: "lookup (mem example_state) 0 = Some (StrV ''/opt/app/lib/x86/image.so'')"
    by (simp add: example_state_def lookup_def)
  have h2: "(256::nat) \<le> 4096" by simp
  show ?thesis
    using h1 h2 depot_of_example_path[OF h1 h2] by simp
qed

text \<open>
  C2 as the specification has it: the directory would be \<^verbatim>\<open>/opt/app\<close> and the value
  \<^verbatim>\<open>/opt/app/\<close>. That is three levels up; the code goes up two.
\<close>

theorem depot_of_example_path_counterexample:
  "dirname_str (dirname_str ''/opt/app/lib/x86/image.so'') \<noteq> ''/opt/app'' \<and>
   env_in_call 4096 (Addr 0) example_state ''JULIA_DEPOT_PATH'' \<noteq> Some (Value ''/opt/app/'')"
proof -
  have h1: "lookup (mem example_state) 0 = Some (StrV ''/opt/app/lib/x86/image.so'')"
    by (simp add: example_state_def lookup_def)
  have d: "dirname_str (dirname_str ''/opt/app/lib/x86/image.so'') = ''/opt/app/lib''"
    by code_simp
  obtain buf st' where
    run: "set_depot_path_body 4096 (Addr 0) example_state = Some (buf, st')"
    using set_depot_path_body_defined[OF h1] by blast
  have p: "c_str (mem example_state) (Addr 0) = Some ''/opt/app/lib/x86/image.so''"
    using h1 by (simp add: c_str_Addr)
  have "getenv st' ''JULIA_DEPOT_PATH'' = Value (take (4096 + 2) (''/opt/app/lib'' @ ''/''))"
    using getenv_depot_in_call[OF p run] by (simp only: d)
  then have "getenv st' ''JULIA_DEPOT_PATH'' = Value ''/opt/app/lib/''"
    by simp
  then show ?thesis
    using d by (simp add: env_in_call_def run)
qed



text \<open>
  C4 (as amended). The names \<^verbatim>\<open>set_depot_path\<close> writes are exactly \<^verbatim>\<open>JULIA_DEPOT_PATH\<close> and
  \<^verbatim>\<open>JULIA_LOAD_PATH\<close>; every other entry of the environment is left as it was. When it has
  written them, the value of \<^verbatim>\<open>JULIA_DEPOT_PATH\<close> is the first \<^verbatim>\<open>PATH_MAX + 2\<close> bytes of the
  depot directory followed by \<^verbatim>\<open>/\<close>, which is the whole of it whenever the depot directory
  has at most \<^verbatim>\<open>PATH_MAX + 1\<close> bytes, and the value of \<^verbatim>\<open>JULIA_LOAD_PATH\<close> is the literal
  \<^verbatim>\<open>@\<close>.
\<close>

theorem environment_written:
  assumes "c_str (mem st) p = Some path"
      and "set_depot_path_body PATH_MAX p st = Some (buf, st')"
  shows "set (map fst (environ st')) =
           set (map fst (environ st)) \<union> {''JULIA_DEPOT_PATH'', ''JULIA_LOAD_PATH''} \<and>
         (\<forall>name. name \<noteq> ''JULIA_DEPOT_PATH'' \<and> name \<noteq> ''JULIA_LOAD_PATH'' \<longrightarrow>
            map_of (environ st') name = map_of (environ st) name) \<and>
         getenv st' ''JULIA_DEPOT_PATH'' =
           Value (take (PATH_MAX + 2) (dirname_str (dirname_str path) @ ''/'')) \<and>
         (length (dirname_str (dirname_str path)) \<le> PATH_MAX + 1 \<longrightarrow>
            getenv st' ''JULIA_DEPOT_PATH'' = Value (dirname_str (dirname_str path) @ ''/'')) \<and>
         getenv st' ''JULIA_LOAD_PATH'' = Value ''@''"
proof (intro conjI allI impI)
  show "set (map fst (environ st')) =
          set (map fst (environ st)) \<union> {''JULIA_DEPOT_PATH'', ''JULIA_LOAD_PATH''}"
    using assms(2) by (rule keys_after_call(1))
  show "map_of (environ st') name = map_of (environ st) name"
    if "name \<noteq> ''JULIA_DEPOT_PATH'' \<and> name \<noteq> ''JULIA_LOAD_PATH''" for name
    using that keys_after_call(2)[OF assms(2)] by blast
  show v: "getenv st' ''JULIA_DEPOT_PATH'' =
      Value (take (PATH_MAX + 2) (dirname_str (dirname_str path) @ ''/''))"
    using assms by (rule getenv_depot_in_call)
  show "getenv st' ''JULIA_DEPOT_PATH'' = Value (dirname_str (dirname_str path) @ ''/'')"
    if "length (dirname_str (dirname_str path)) \<le> PATH_MAX + 1"
    using that v by simp
  show "getenv st' ''JULIA_LOAD_PATH'' = Value ''@''"
    using assms(2) by (rule getenv_load_in_call)
qed

text \<open>The example process is an instance.\<close>

theorem environment_written_witness:
  "c_str (mem example_state) (Addr 0) = Some ''/opt/app/lib/x86/image.so'' \<and>
   set_depot_path_body 4096 (Addr 0) example_state =
     Some (1, \<lparr>mem = [Some (StrV ''/opt/app/lib''), Some (StrV ''JULIA_DEPOT_PATH=/opt/app/lib/'')],
               environ = [(''JULIA_LOAD_PATH'', Lit ''JULIA_LOAD_PATH=@''),
                          (''JULIA_DEPOT_PATH'', Addr 1)],
               image_file = Null,
               trace = []\<rparr>) \<and>
   getenv \<lparr>mem = [Some (StrV ''/opt/app/lib''), Some (StrV ''JULIA_DEPOT_PATH=/opt/app/lib/'')],
           environ = [(''JULIA_LOAD_PATH'', Lit ''JULIA_LOAD_PATH=@''),
                      (''JULIA_DEPOT_PATH'', Addr 1)],
           image_file = Null,
           trace = []\<rparr> ''JULIA_DEPOT_PATH'' = Value ''/opt/app/lib/'' \<and>
   getenv \<lparr>mem = [Some (StrV ''/opt/app/lib''), Some (StrV ''JULIA_DEPOT_PATH=/opt/app/lib/'')],
           environ = [(''JULIA_LOAD_PATH'', Lit ''JULIA_LOAD_PATH=@''),
                      (''JULIA_DEPOT_PATH'', Addr 1)],
           image_file = Null,
           trace = []\<rparr> ''JULIA_LOAD_PATH'' = Value ''@''"
proof -
  have h1: "c_str (mem example_state) (Addr 0) = Some ''/opt/app/lib/x86/image.so''"
    by (simp add: example_state_def c_str_def lookup_def)
  note h2 = example_body
  have d: "dirname_str (dirname_str ''/opt/app/lib/x86/image.so'') = ''/opt/app/lib''"
    by code_simp
  show ?thesis
    using h1 h2 environment_written[OF h1 h2] unfolding d by simp
qed

text \<open>
  C4 as the specification has it: the names would be \<^verbatim>\<open>DEPOT_PATH\<close> and \<^verbatim>\<open>LOAD_PATH\<close>, and
  the value of the first always the depot directory and a separator. With a depot directory
  of 5001 bytes and \<^verbatim>\<open>PATH_MAX = 4096\<close> the value stops short of the separator, and no
  variable of either of those names is set.
\<close>

theorem environment_written_counterexample:
  "dirname_str (dirname_str (CHR ''/'' # replicate 5000 CHR ''a'' @ ''/lib/image.so'')) =
     CHR ''/'' # replicate 5000 CHR ''a'' \<and>
   env_in_call 4096 (Addr 0) long_path_state ''JULIA_DEPOT_PATH'' \<noteq>
     Some (Value ((CHR ''/'' # replicate 5000 CHR ''a'') @ ''/'')) \<and>
   env_in_call 4096 (Addr 0) long_path_state ''DEPOT_PATH'' = Some Unset \<and>
   env_in_call 4096 (Addr 0) long_path_state ''LOAD_PATH'' = Some Unset"
proof -
  let ?d = "CHR ''/'' # replicate 5000 CHR ''a''"
  let ?path = "?d @ ''/'' @ ''lib'' @ ''/'' @ ''image.so''"
  have d: "dirname_str (dirname_str ?path) = (if ?d = [] then ''/'' else ?d)"
    by (rule dirname_str_two_segments) simp_all
  have l: "lookup (mem long_path_state) 0 = Some (StrV ?path)"
    by (simp add: long_path_state_def lookup_def)
  then have c: "c_str (mem long_path_state) (Addr 0) = Some ?path"
    by (simp add: c_str_Addr)
  obtain buf st' where run: "set_depot_path_body 4096 (Addr 0) long_path_state = Some (buf, st')"
    using set_depot_path_body_defined[OF l] by blast
  have "getenv st' ''JULIA_DEPOT_PATH'' = Value (take (4096 + 2) (?d @ ''/''))"
    using getenv_depot_in_call[OF c run] d by simp
  moreover have "length (take (4096 + 2) (?d @ ''/'')) \<noteq> length (?d @ ''/'')"
    by simp
  ultimately have v: "getenv st' ''JULIA_DEPOT_PATH'' \<noteq> Value (?d @ ''/'')"
    by (metis env_value.inject)
  have e: "environ st' = env_update ''JULIA_LOAD_PATH'' (Lit ''JULIA_LOAD_PATH=@'')
           (env_update ''JULIA_DEPOT_PATH'' (Addr buf) [])"
    using set_depot_path_body_env(2)[OF run] by (simp add: long_path_state_def)
  have u1: "getenv st' ''DEPOT_PATH'' = Unset" and u2: "getenv st' ''LOAD_PATH'' = Unset"
    by (simp_all add: getenv_def e)
  show ?thesis
    using d v u1 u2 by (simp add: env_in_call_def run)
qed

text \<open>
  C5 (as amended). With \<^verbatim>\<open>JULIAC_PROGRAM_LIBNAME\<close> null, \<^verbatim>\<open>init_julia\<close> ends the process
  with status 1, for every runtime, argument list and state. By then it has forwarded the
  arguments and reported the error through \<^verbatim>\<open>jl_error\<close>, and nothing else: the loader has
  not been asked, the environment and \<^verbatim>\<open>image_file\<close> are as they were, and \<^verbatim>\<open>julia_init\<close>
  has not been called.
\<close>

theorem init_without_libname:
  "init_julia rt PATH_MAX None argc argv st =
     Exited 1 ((setup_args rt argc argv st)\<lparr>trace := trace st @
       [Uv_setup_args argc argv, Libsupport_init,
        Jl_parse_opts (length (mem st)) (Suc (length (mem st))),
        Jl_error ''Please specify `libname` when requesting the sysimage path'']\<rparr>) \<and>
   (1 :: c_int) \<noteq> 0 \<and>
   environ (setup_args rt argc argv st) = environ st \<and>
   image_file (setup_args rt argc argv st) = image_file st"
  by (simp add: init_julia_def get_sysimage_path_def setup_args_def alloc_def Let_def)

text \<open>
  C5 as the specification has it: an empty name would end the process too. The guard of
  \<^verbatim>\<open>get_sysimage_path\<close> is \<^verbatim>\<open>libname == NULL\<close>; with the empty string as the name
  \<^verbatim>\<open>init_julia\<close> asks the loader, goes on and calls \<^verbatim>\<open>julia_init\<close>.
\<close>

theorem init_without_libname_counterexample:
  "init_julia example_runtime 4096 (Some '''') 1 Null example_state =
     Returned (example_running\<lparr>trace :=
       [Uv_setup_args 1 Null, Libsupport_init, Jl_parse_opts 1 2,
        Jl_load_dynamic_library '''', Jl_pathname_for_handle 1,
        Julia_init JL_IMAGE_JULIA_HOME]\<rparr>) \<and>
   Julia_init JL_IMAGE_JULIA_HOME \<in> set
       [Uv_setup_args 1 Null, Libsupport_init, Jl_parse_opts 1 2,
        Jl_load_dynamic_library '''', Jl_pathname_for_handle 1,
        Julia_init JL_IMAGE_JULIA_HOME]"
  by code_simp

text \<open>
  C6. Two runs of \<^verbatim>\<open>set_depot_path\<close> from any two states, whatever \<^verbatim>\<open>JULIA_LOAD_PATH\<close> was in
  either, end with the same value of \<^verbatim>\<open>JULIA_LOAD_PATH\<close>: the literal \<^verbatim>\<open>@\<close>.
\<close>

theorem load_path_overridden:
  assumes "set_depot_path PATH_MAX p1 st1 = Some st1'"
      and "set_depot_path PATH_MAX p2 st2 = Some st2'"
  shows "getenv st1' ''JULIA_LOAD_PATH'' = Value ''@'' \<and>
         getenv st2' ''JULIA_LOAD_PATH'' = getenv st1' ''JULIA_LOAD_PATH''"
  using getenv_load_after[OF assms(1)] getenv_load_after[OF assms(2)] by simp

text \<open>
  One run starts with \<^verbatim>\<open>JULIA_LOAD_PATH=/home/user/project\<close>, the other with the variable
  unset.
\<close>

theorem load_path_overridden_witness:
  "getenv example_state ''JULIA_LOAD_PATH'' = Value ''/home/user/project'' \<and>
   getenv (example_state\<lparr>environ := []\<rparr>) ''JULIA_LOAD_PATH'' = Unset \<and>
   set_depot_path 4096 (Addr 0) example_state =
     Some \<lparr>mem = [Some (StrV ''/opt/app/lib''), None],
           environ = [(''JULIA_LOAD_PATH'', Lit ''JULIA_LOAD_PATH=@''),
                      (''JULIA_DEPOT_PATH'', Addr 1)],
           image_file = Null,
           trace = []\<rparr> \<and>
   set_depot_path 4096 (Addr 0) (example_state\<lparr>environ := []\<rparr>) =
     Some \<lparr>mem = [Some (StrV ''/opt/app/lib''), None],
           environ = [(''JULIA_DEPOT_PATH'', Addr 1),
                      (''JULIA_LOAD_PATH'', Lit ''JULIA_LOAD_PATH=@'')],
           image_file = Null,
           trace = []\<rparr> \<and>
   getenv \<lparr>mem = [Some (StrV ''/opt/app/lib''), None],
           environ = [(''JULIA_LOAD_PATH'', Lit ''JULIA_LOAD_PATH=@''),
                      (''JULIA_DEPOT_PATH'', Addr 1)],
           image_file = Null,
           trace = []\<rparr> ''JULIA_LOAD_PATH'' = Value ''@'' \<and>
   getenv \<lparr>mem = [Some (StrV ''/opt/app/lib''), None],
           environ = [(''JULIA_DEPOT_PATH'', Addr 1),
                      (''JULIA_LOAD_PATH'', Lit ''JULIA_LOAD_PATH=@'')],
           image_file = Null,
           trace = []\<rparr> ''JULIA_LOAD_PATH'' = Value ''@''"
proof -
  have h2: "set_depot_path 4096 (Addr 0) (example_state\<lparr>environ := []\<rparr>) =
     Some \<lparr>mem = [Some (StrV ''/opt/app/lib''), None],
           environ = [(''JULIA_DEPOT_PATH'', Addr 1),
                      (''JULIA_LOAD_PATH'', Lit ''JULIA_LOAD_PATH=@'')],
           image_file = Null,
           trace = []\<rparr>"
    by code_simp
  have b: "getenv example_state ''JULIA_LOAD_PATH'' = Value ''/home/user/project''"
    "getenv (example_state\<lparr>environ := []\<rparr>) ''JULIA_LOAD_PATH'' = Unset"
    by (simp_all add: getenv_def example_state_def c_str_def)
  show ?thesis
    using b example_call h2 load_path_overridden[OF example_call h2] by simp
qed

text \<open>
  C7. The claim: calling \<^verbatim>\<open>set_depot_path\<close> twice with the same argument leaves the
  environment with the values one call leaves. The code: the first call has shortened the
  string its argument points to (C1), so the second call computes the depot from
  \<^verbatim>\<open>/opt/app/lib\<close> and not from \<^verbatim>\<open>/opt/app/lib/x86/image.so\<close>. One call writes
  \<^verbatim>\<open>JULIA_DEPOT_PATH=/opt/app/lib/\<close>; the second writes \<^verbatim>\<open>JULIA_DEPOT_PATH=/opt/\<close>.
\<close>

theorem second_call_differs:
  "env_in_call 4096 (Addr 0) example_state ''JULIA_DEPOT_PATH'' = Some (Value ''/opt/app/lib/'') \<and>
   env_in_second_call 4096 (Addr 0) example_state ''JULIA_DEPOT_PATH'' = Some (Value ''/opt/'')"
  by code_simp

text \<open>
  C8. The claim: the storage of every variable put into the environment outlives the call
  that put it there. The code: \<^verbatim>\<open>putenv\<close> is given \<^verbatim>\<open>buf\<close>, an automatic array of
  \<^verbatim>\<open>set_depot_path\<close>. Inside the call \<^verbatim>\<open>JULIA_DEPOT_PATH\<close> has its value; once the call has
  returned, the environment's entry points to an object that no longer exists.
\<close>

theorem depot_entry_dangling:
  "env_in_call 4096 (Addr 0) example_state ''JULIA_DEPOT_PATH'' = Some (Value ''/opt/app/lib/'') \<and>
   env_after_call 4096 (Addr 0) example_state ''JULIA_DEPOT_PATH'' = Some Dangling"
  by (simp add: env_in_call_def env_after_call_def example_body example_call
        getenv_def c_str_def lookup_def)

text \<open>
  C9. Whenever \<^verbatim>\<open>init_julia\<close> has returned, \<^verbatim>\<open>shutdown_julia n\<close> does one thing, for every
  \<^verbatim>\<open>int\<close> \<open>n\<close>: it calls \<^verbatim>\<open>jl_atexit_hook\<close> with exactly \<open>n\<close>, after the call of
  \<^verbatim>\<open>julia_init\<close> that ended \<^verbatim>\<open>init_julia\<close>.
\<close>

theorem shutdown_after_init:
  assumes "init_julia rt PATH_MAX libname argc argv st = Returned st'"
  shows "shutdown_julia n st' = st'\<lparr>trace := trace st' @ [Jl_atexit_hook n]\<rparr> \<and>
         last (trace (shutdown_julia n st')) = Jl_atexit_hook n \<and>
         last (trace st') = Julia_init JL_IMAGE_JULIA_HOME"
  using assms
  by (auto simp: shutdown_julia_def init_julia_def get_sysimage_path_def Let_def
           split: option.splits outcome.splits)

text \<open>The example process, shut down with 3.\<close>

theorem shutdown_after_init_witness:
  "init_julia example_runtime 4096 (Some ''libsys.so'') 1 Null example_state =
     Returned example_running \<and>
   shutdown_julia 3 example_running =
     example_running\<lparr>trace := trace example_running @ [Jl_atexit_hook 3]\<rparr> \<and>
   last (trace (shutdown_julia 3 example_running)) = Jl_atexit_hook 3 \<and>
   last (trace example_running) = Julia_init JL_IMAGE_JULIA_HOME"
  using example_init shutdown_after_init[OF example_init, of 3] by simp

text \<open>
  C10. \<^verbatim>\<open>setup_args\<close> gives the parser the addresses of its own parameters, two objects
  created for the call. So an object \<open>a\<close> that existed before the call (the caller's
  \<^verbatim>\<open>argc\<close>, or its \<^verbatim>\<open>argv\<close>) holds after the call what the parser left in it, the parser
  having been pointed to the two new objects; \<^verbatim>\<open>setup_args\<close> copies nothing back. A parser
  that in this call writes, besides the two objects it is pointed to, only to the argument
  list (it may consume from it and rewrite it) therefore leaves every object of the caller
  outside that list as it was.
\<close>

theorem setup_args_frame:
  assumes "a < length (mem st)"
  shows "lookup (mem (setup_args rt argc argv st)) a =
           lookup (jl_parse_opts rt (length (mem st)) (Suc (length (mem st)))
                     (mem st @ [Some (IntV argc), Some (PtrV argv)])) a \<and>
         ((\<forall>b. b < length (mem st) \<and> b \<notin> set (argument_list (mem st) argc argv) \<longrightarrow>
               lookup (jl_parse_opts rt (length (mem st)) (Suc (length (mem st)))
                         (mem st @ [Some (IntV argc), Some (PtrV argv)])) b =
               lookup (mem st) b) \<and>
          a \<notin> set (argument_list (mem st) argc argv) \<longrightarrow>
          lookup (mem (setup_args rt argc argv st)) a = lookup (mem st) a)"
proof -
  let ?c = "length (mem st)" and ?v = "Suc (length (mem st))"
  let ?m = "mem st @ [Some (IntV argc), Some (PtrV argv)]"
  have "mem (setup_args rt argc argv st) = release ?v (release ?c (jl_parse_opts rt ?c ?v ?m))"
    by (simp add: setup_args_def alloc_def Let_def)
  then have 1: "lookup (mem (setup_args rt argc argv st)) a = lookup (jl_parse_opts rt ?c ?v ?m) a"
    using assms by (simp add: lookup_release)
  show ?thesis
    using 1 assms by simp
qed

text \<open>
  The parser of the example exchanges the first two elements of the vector and consumes one
  argument. The vector of \<^verbatim>\<open>main\<close> is rewritten; its \<^verbatim>\<open>argc\<close> is still 2 and its \<^verbatim>\<open>argv\<close>
  still points to the start of the vector.
\<close>

theorem setup_args_frame_witness:
  "(1::nat) < length (mem args_state) \<and> (2::nat) < length (mem args_state) \<and>
   1 \<notin> set (argument_list (mem args_state) 2 (Addr 3)) \<and>
   2 \<notin> set (argument_list (mem args_state) 2 (Addr 3)) \<and>
   lookup (mem (setup_args args_runtime 2 (Addr 3) args_state)) 1 = Some (IntV 2) \<and>
   lookup (mem (setup_args args_runtime 2 (Addr 3) args_state)) 2 = Some (PtrV (Addr 3)) \<and>
   lookup (mem (setup_args args_runtime 2 (Addr 3) args_state)) 3 = Some (PtrV (Addr 7)) \<and>
   lookup (mem (setup_args args_runtime 2 (Addr 3) args_state)) 4 = Some (PtrV (Addr 6))"
proof -
  have h1: "(1::nat) < length (mem args_state)" and h2: "(2::nat) < length (mem args_state)"
    by (simp_all add: args_state_def)
  have n: "1 \<notin> set (argument_list (mem args_state) 2 (Addr 3))"
    "2 \<notin> set (argument_list (mem args_state) 2 (Addr 3))"
    by (simp_all add: args_list)
  have old: "lookup (mem args_state) 1 = Some (IntV 2)"
    "lookup (mem args_state) 2 = Some (PtrV (Addr 3))"
    by (simp_all add: args_state_def lookup_def)
  have new: "lookup (mem (setup_args args_runtime 2 (Addr 3) args_state)) 3 = Some (PtrV (Addr 7))"
    "lookup (mem (setup_args args_runtime 2 (Addr 3) args_state)) 4 = Some (PtrV (Addr 6))"
    by code_simp+
  show ?thesis
    using h1 h2 n old new args_call_footprint
      setup_args_frame[OF h1, of args_runtime 2 "Addr 3"]
      setup_args_frame[OF h2, of args_runtime 2 "Addr 3"]
    by simp
qed

end
